theory Spec2Isabelle
  imports Main "HOL-Library.Word"
begin

section \<open>JavaScript values used by the quiz application\<close>

text \<open>
  A JavaScript string is a sequence of UTF-16 code units. The learners type Japanese text,
  so the white space that \<^verbatim>\<open>String.prototype.trim\<close> removes includes code units
  beyond ASCII (the ideographic space U+3000 among them).
\<close>

type_synonym jstring = "16 word list"

text \<open>An ASCII literal of the program text as a JavaScript string.\<close>

definition ascii :: "string \<Rightarrow> jstring" where
  "ascii s = map (\<lambda>c. of_nat (of_char c)) s"

text \<open>
  ECMAScript WhiteSpace and LineTerminator code points: TAB, LF, VT, FF, CR, SP, NBSP,
  the Unicode space separators, LS, PS and the byte order mark.
\<close>

definition isWhiteSpace :: "16 word \<Rightarrow> bool" where
  "isWhiteSpace c \<longleftrightarrow> c \<in> set
     [0x9, 0xA, 0xB, 0xC, 0xD, 0x20, 0xA0, 0x1680,
      0x2000, 0x2001, 0x2002, 0x2003, 0x2004, 0x2005, 0x2006, 0x2007, 0x2008, 0x2009, 0x200A,
      0x2028, 0x2029, 0x202F, 0x205F, 0x3000, 0xFEFF]"

text \<open>\<^verbatim>\<open>s.trim()\<close>: white space removed from both ends.\<close>

definition trim :: "jstring \<Rightarrow> jstring" where
  "trim s = rev (dropWhile isWhiteSpace (rev (dropWhile isWhiteSpace s)))"

text \<open>
  A value found at run time where the types promise a \<^verbatim>\<open>UserAnswer\<close>
  (\<^verbatim>\<open>string | string[]\<close>). The grading code tests the run-time type itself
  (\<^verbatim>\<open>typeof v === 'string'\<close>, \<^verbatim>\<open>Array.isArray(v)\<close>), so the model keeps the values
  that are neither: \<open>JOther t\<close> is any value that is not a string, not an array and not
  \<^verbatim>\<open>undefined\<close> (null, a number, a boolean, an object), and \<open>t\<close> is its truthiness.
  \<^verbatim>\<open>undefined\<close> as the result of a property lookup is \<open>None\<close>.
\<close>

datatype jsval = JStr jstring | JArr "jsval list" | JOther bool

text \<open>What \<^verbatim>\<open>v || d\<close> tests on a defined value: the empty string is falsy, every array truthy.\<close>

fun truthy :: "jsval \<Rightarrow> bool" where
  "truthy (JStr s) = (s \<noteq> [])"
| "truthy (JArr vs) = True"
| "truthy (JOther t) = t"

text \<open>
  \<^verbatim>\<open>xs.every((x, i) => f(x, i))\<close> on an array without holes: the callback sees each
  element with its index.
\<close>

definition every :: "('a \<Rightarrow> nat \<Rightarrow> bool) \<Rightarrow> 'a list \<Rightarrow> bool" where
  "every f xs = list_all (\<lambda>i. f (xs ! i) i) [0..<length xs]"

text \<open>\<^verbatim>\<open>n.toString()\<close> for a non-negative integer: its decimal digits.\<close>

fun numToString :: "nat \<Rightarrow> jstring" where
  "numToString n =
     (if n < 10 then [of_nat (48 + n)]
      else numToString (n div 10) @ [of_nat (48 + n mod 10)])"

declare numToString.simps [simp del]

subsection \<open>Objects as ordered property lists\<close>

text \<open>
  A plain object is the list of its own properties in the order \<^verbatim>\<open>Object.entries\<close>
  lists them: the array-index keys (canonical decimal strings below \<open>2^32 - 1\<close>) in
  ascending numeric order, then the other string keys in the order of their creation.
\<close>

type_synonym 'v obj = "(jstring \<times> 'v) list"

definition obj_get :: "'v obj \<Rightarrow> jstring \<Rightarrow> 'v option" where
  "obj_get ob k = map_of ob k"

definition isDigit :: "16 word \<Rightarrow> bool" where
  "isDigit c \<longleftrightarrow> 48 \<le> unat c \<and> unat c \<le> 57"

definition digitsValue :: "jstring \<Rightarrow> nat" where
  "digitsValue s = foldl (\<lambda>acc c. 10 * acc + (unat c - 48)) 0 s"

definition arrayIndex :: "jstring \<Rightarrow> nat option" where
  "arrayIndex k =
     (if k \<noteq> [] \<and> list_all isDigit k \<and> numToString (digitsValue k) = k
         \<and> digitsValue k < 2 ^ 32 - 1
      then Some (digitsValue k) else None)"

text \<open>Whether a new key \<open>k\<close> is listed before the existing key \<open>k'\<close>.\<close>

definition keyBefore :: "jstring \<Rightarrow> jstring \<Rightarrow> bool" where
  "keyBefore k k' =
     (case arrayIndex k of
        None \<Rightarrow> False
      | Some i \<Rightarrow> (case arrayIndex k' of None \<Rightarrow> True | Some j \<Rightarrow> i < j))"

fun obj_insert :: "'v obj \<Rightarrow> jstring \<Rightarrow> 'v \<Rightarrow> 'v obj" where
  "obj_insert [] k v = [(k, v)]"
| "obj_insert ((k', v') # ob) k v =
     (if keyBefore k k' then (k, v) # (k', v') # ob else (k', v') # obj_insert ob k v)"

text \<open>
  \<^verbatim>\<open>{...ob, [k]: v}\<close> and \<^verbatim>\<open>ob[k] = v\<close>: an existing property keeps its place and
  takes the new value, a new one is created.
\<close>

definition obj_set :: "'v obj \<Rightarrow> jstring \<Rightarrow> 'v \<Rightarrow> 'v obj" where
  "obj_set ob k v =
     (if k \<in> set (map fst ob)
      then map (\<lambda>(k', v'). if k' = k then (k', v) else (k', v')) ob
      else obj_insert ob k v)"

section \<open>The data model (types.ts)\<close>

text \<open>
  The fields of a question, an excerpt and a work keep their names behind a prefix for
  their record (\<open>q_\<close>, \<open>e_\<close>, \<open>w_\<close>), since \<open>a\<close>, \<open>q\<close>, \<open>id\<close> and \<open>text\<close> are taken. Study
  times are whole seconds and timestamps whole milliseconds, far inside the range where a
  JavaScript number is an exact integer, so both are integers here. Excerpt ids are
  natural numbers.
\<close>

text \<open>\<^verbatim>\<open>Question.a\<close>, of type \<^verbatim>\<open>string | string[]\<close>.\<close>

datatype answer = AStr jstring | AArr "jstring list"

record Question =
  q_type :: jstring
  q_q :: jstring
  q_options :: "jstring list option"
  q_a :: answer

record Excerpt =
  e_id :: nat
  e_subtitle :: jstring
  e_text :: jstring
  e_notes :: "jstring obj"
  e_questions :: "Question list"

record Work =
  w_id :: jstring
  w_author :: jstring
  w_title :: jstring
  w_description :: jstring
  w_excerpts :: "Excerpt list"

record AnswerData =
  answers :: "jsval obj"
  studyTime :: int
  timestamp :: int

text \<open>\<^verbatim>\<open>UserAnswers\<close>: work id, then excerpt id (as a string), then the attempts.\<close>

type_synonym UserAnswers = "AnswerData list obj obj"

section \<open>Grading\<close>

text \<open>
  \<^verbatim>\<open>userAnswer === question.a\<close>: strict equality holds for two equal strings; an array
  typed by the learner is never the answer key's own array object.
\<close>

fun strictEq :: "jsval \<Rightarrow> answer \<Rightarrow> bool" where
  "strictEq (JStr s) (AStr t) = (s = t)"
| "strictEq _ _ = False"

fun isJStrWith :: "(jstring \<Rightarrow> bool) \<Rightarrow> jsval \<Rightarrow> bool" where
  "isJStrWith P (JStr s) = P s"
| "isJStrWith P _ = False"

text \<open>The checker of the quiz page.\<close>

definition checkAnswerCorrectness :: "Question \<Rightarrow> jsval \<Rightarrow> bool" where
  "checkAnswerCorrectness question userAnswer =
     (if q_type question = ascii ''multiple-choice'' then strictEq userAnswer (q_a question)
      else if q_type question = ascii ''extraction'' then
        (case q_a question of
           AArr alts \<Rightarrow> isJStrWith (\<lambda>s. trim s \<in> set (map trim alts)) userAnswer
         | AStr t \<Rightarrow> isJStrWith (\<lambda>s. trim s = t) userAnswer)
      else if q_type question = ascii ''fill-in-the-blank'' then
        (case (userAnswer, q_a question) of
           (JArr uas, AArr as) \<Rightarrow>
             if length uas = length as
             then every (\<lambda>ans i. isJStrWith (\<lambda>s. trim s = as ! i) ans) uas
             else False
         | _ \<Rightarrow> False)
      else False)"

text \<open>The scorer of the result and record pages, with its own copy of the comparison.\<close>

record result =
  isCorrect :: bool
  userAnswer :: jsval
  correctAnswer :: answer

record score =
  correct :: nat
  total :: nat
  results :: "result list"

definition scoreQuestion :: "AnswerData \<Rightarrow> Question \<Rightarrow> nat \<Rightarrow> result" where
  "scoreQuestion answerData q index =
     (case obj_get (answers answerData) (numToString index) of
        None \<Rightarrow> \<lparr>isCorrect = False, userAnswer = JStr [], correctAnswer = q_a q\<rparr>
      | Some ua \<Rightarrow>
          \<lparr>isCorrect =
             (if q_type q = ascii ''multiple-choice'' then strictEq ua (q_a q)
              else if q_type q = ascii ''extraction'' then
                (case q_a q of
                   AArr alts \<Rightarrow> isJStrWith (\<lambda>s. trim s \<in> set (map trim alts)) ua
                 | AStr t \<Rightarrow> isJStrWith (\<lambda>s. trim s = t) ua)
              else if q_type q = ascii ''fill-in-the-blank'' then
                (case (ua, q_a q) of
                   (JArr uas, AArr as) \<Rightarrow>
                     if length uas = length as
                     then every (\<lambda>ans i. isJStrWith (\<lambda>s. trim s = as ! i) ans) uas
                     else False
                 | _ \<Rightarrow> False)
              else False),
           userAnswer = ua, correctAnswer = q_a q\<rparr>)"

text \<open>
  \<^verbatim>\<open>getScore\<close>; a missing excerpt or attempt gives the empty score. The counter is
  incremented exactly for the results that are correct.
\<close>

definition getScore :: "Excerpt option \<Rightarrow> AnswerData option \<Rightarrow> score" where
  "getScore excerpt answerData =
     (case (excerpt, answerData) of
        (Some ex, Some ad) \<Rightarrow>
          (let rs = map (\<lambda>index. scoreQuestion ad (e_questions ex ! index) index)
                        [0..<length (e_questions ex)]
           in \<lparr>correct = length (filter isCorrect rs),
               total = length (e_questions ex),
               results = rs\<rparr>)
      | _ \<Rightarrow> \<lparr>correct = 0, total = 0, results = []\<rparr>)"

section \<open>The record store (App)\<close>

text \<open>
  The store is React state: every operation is a function from the previous store to the
  next one. \<^verbatim>\<open>Date.now()\<close> is the argument \<open>now\<close>.
\<close>

definition saveAnswers ::
  "UserAnswers \<Rightarrow> jstring \<Rightarrow> nat \<Rightarrow> jsval obj \<Rightarrow> int \<Rightarrow> int \<Rightarrow> UserAnswers" where
  "saveAnswers prev workId excerptId userAnswers studyTime' now =
     (let answerData = \<lparr>answers = userAnswers, studyTime = studyTime', timestamp = now\<rparr>;
          currentWorkAnswers = (case obj_get prev workId of None \<Rightarrow> [] | Some c \<Rightarrow> c);
          existingAttempts =
            (case obj_get currentWorkAnswers (numToString excerptId) of
               None \<Rightarrow> [] | Some l \<Rightarrow> l)
      in obj_set prev workId
           (obj_set currentWorkAnswers (numToString excerptId)
              (existingAttempts @ [answerData])))"

definition getAttemptCount :: "UserAnswers \<Rightarrow> jstring \<Rightarrow> nat \<Rightarrow> nat" where
  "getAttemptCount answers' workId excerptId =
     (case obj_get answers' workId of
        None \<Rightarrow> 0
      | Some excerpts \<Rightarrow>
          (case obj_get excerpts (numToString excerptId) of
             None \<Rightarrow> 0
           | Some l \<Rightarrow> length l))"

definition clearAllAnswers :: "UserAnswers \<Rightarrow> UserAnswers" where
  "clearAllAnswers prev = []"

text \<open>The attempts stored for one excerpt, in stored order (what the result page reads).\<close>

definition answerAttempts :: "UserAnswers \<Rightarrow> jstring \<Rightarrow> nat \<Rightarrow> AnswerData list" where
  "answerAttempts answers' workId excerptId =
     (case obj_get answers' workId of
        None \<Rightarrow> []
      | Some excerpts \<Rightarrow>
          (case obj_get excerpts (numToString excerptId) of None \<Rightarrow> [] | Some l \<Rightarrow> l))"

subsection \<open>The initial store\<close>

text \<open>
  What \<^verbatim>\<open>localStorage.getItem('userAnswers')\<close> did: it threw, it returned
  \<^verbatim>\<open>null\<close>, or it returned the saved string.
\<close>

datatype storageRead = ReadThrows | ReadNull | ReadValue jstring

text \<open>
  The initialiser of the store. \<^verbatim>\<open>JSON.parse\<close> is the platform's: \<open>jsonParse s\<close> is
  \<open>None\<close> where it throws. The source casts the parsed value to the store type unchecked.
\<close>

definition initialAnswers :: "storageRead \<Rightarrow> (jstring \<Rightarrow> UserAnswers option) \<Rightarrow> UserAnswers" where
  "initialAnswers saved jsonParse =
     (case saved of
        ReadThrows \<Rightarrow> []
      | ReadNull \<Rightarrow> []
      | ReadValue s \<Rightarrow>
          if s = [] then []
          else (case jsonParse s of None \<Rightarrow> [] | Some v \<Rightarrow> v))"

section \<open>Finishing a quiz session (QuizPage)\<close>

record ShuffledQuestion = Question +
  originalIndex :: nat

text \<open>
  The answers keyed by the questions' original positions; a falsy or missing answer becomes
  the empty answer of the question's kind.
\<close>

definition orderedAnswers :: "ShuffledQuestion list \<Rightarrow> jsval obj \<Rightarrow> jsval obj" where
  "orderedAnswers shuffledQuestions userAnswers =
     fold (\<lambda>displayIndex acc.
             let q = shuffledQuestions ! displayIndex;
                 dflt = (if q_type q = ascii ''fill-in-the-blank'' then JArr [] else JStr [])
             in obj_set acc (numToString (originalIndex q))
                  (case obj_get userAnswers (numToString displayIndex) of
                     None \<Rightarrow> dflt
                   | Some v \<Rightarrow> if truthy v then v else dflt))
          [0..<length shuffledQuestions] []"

text \<open>
  \<^verbatim>\<open>Math.round(ms / 1000)\<close> for an integer number of milliseconds: halves round
  towards positive infinity. Both clock readings are whole milliseconds, and the quotient of
  such a difference by 1000 lies on the same side of every half as its double.
\<close>

definition roundSeconds :: "int \<Rightarrow> int" where
  "roundSeconds ms = (ms + 500) div 1000"

text \<open>
  \<open>now\<close> is the clock when the session is finished, \<open>savedAt\<close> the clock read by
  \<^verbatim>\<open>saveAnswers\<close>. The navigation that follows does not touch the store.
\<close>

definition handleFinishQuiz ::
  "UserAnswers \<Rightarrow> Work \<Rightarrow> Excerpt \<Rightarrow> ShuffledQuestion list \<Rightarrow> jsval obj \<Rightarrow> int \<Rightarrow> int \<Rightarrow> int
     \<Rightarrow> UserAnswers" where
  "handleFinishQuiz prev work excerpt shuffledQuestions userAnswers startTime now savedAt =
     (let studyTimeInSeconds = roundSeconds (now - startTime)
      in saveAnswers prev (w_id work) (e_id excerpt)
           (orderedAnswers shuffledQuestions userAnswers)
           (if studyTimeInSeconds > 0 then studyTimeInSeconds else 1) savedAt)"

section \<open>The history report (RecordsPage)\<close>

record attemptRow = AnswerData +
  at_workId :: jstring
  at_excerptId :: nat
  at_score :: score

text \<open>
  Every stored attempt of a known work and excerpt, scored, most recent first. The sort is
  stable. \<^verbatim>\<open>Number(excerptId)\<close> is the id of the excerpt found under that key.
\<close>

definition allAttempts :: "Work list \<Rightarrow> UserAnswers \<Rightarrow> attemptRow list" where
  "allAttempts works answers' =
     sort_key (\<lambda>a. - timestamp a)
       (concat (map (\<lambda>(workId, excerpts).
          concat (map (\<lambda>(excerptId, attempts).
            (case find (\<lambda>w. w_id w = workId) works of
               None \<Rightarrow> []
             | Some work \<Rightarrow>
                 (case find (\<lambda>e. numToString (e_id e) = excerptId) (w_excerpts work) of
                    None \<Rightarrow> []
                  | Some excerpt \<Rightarrow>
                      map (\<lambda>attempt.
                             \<lparr>answers = answers attempt, studyTime = studyTime attempt,
                              timestamp = timestamp attempt,
                              at_workId = workId, at_excerptId = e_id excerpt,
                              at_score = getScore (Some excerpt) (Some attempt)\<rparr>)
                          attempts)))
            excerpts))
          answers'))"

text \<open>
  The keys of \<^verbatim>\<open>categories\<close> are five string literals, and \<^verbatim>\<open>categoryKey\<close> is
  only ever assigned one of them; the order of the list is the order of
  \<^verbatim>\<open>Object.entries(categories)\<close>.
\<close>

datatype categoryKey = today | yesterday | sevenDays | thirtyDays | older

record category =
  title :: jstring
  attempts :: "attemptRow list"
  totalTime :: int

definition categories :: "(categoryKey \<times> category) list" where
  "categories =
     [(today, \<lparr>title = [0x4ECA, 0x65E5, 0x306E, 0x8A18, 0x9332], attempts = [], totalTime = 0\<rparr>),
      (yesterday, \<lparr>title = [0x6628, 0x65E5, 0x306E, 0x8A18, 0x9332], attempts = [], totalTime = 0\<rparr>),
      (sevenDays, \<lparr>title = [0x904E, 0x53BB, 0x37, 0x65E5, 0x9593, 0x306E, 0x8A18, 0x9332],
                   attempts = [], totalTime = 0\<rparr>),
      (thirtyDays, \<lparr>title = [0x904E, 0x53BB, 0x33, 0x30, 0x65E5, 0x9593, 0x306E, 0x8A18, 0x9332],
                    attempts = [], totalTime = 0\<rparr>),
      (older, \<lparr>title = [0x305D, 0x308C, 0x3088, 0x308A, 0x524D, 0x306E, 0x8A18, 0x9332],
               attempts = [], totalTime = 0\<rparr>)]"

text \<open>
  The four instants the report compares with, in milliseconds since the epoch: the local
  midnight of today (\<^verbatim>\<open>new Date(y, m, d)\<close> from the clock's local date) and that date
  moved back by 1, 7 and 30 calendar days (\<^verbatim>\<open>setDate(getDate() - n)\<close>). The Date API
  computes them by the time zone rules of the host, where a local day need not have 24
  hours, so they are an argument of the report.
\<close>

record dayStarts =
  todayStart :: int
  yesterdayStart :: int
  sevenDaysAgo :: int
  thirtyDaysAgo :: int

definition categoryKeyOf :: "dayStarts \<Rightarrow> int \<Rightarrow> categoryKey" where
  "categoryKeyOf d attemptDate =
     (if attemptDate \<ge> todayStart d then today
      else if attemptDate \<ge> yesterdayStart d then yesterday
      else if attemptDate \<ge> sevenDaysAgo d then sevenDays
      else if attemptDate \<ge> thirtyDaysAgo d then older
      else older)"

text \<open>The push and the addition on the category found under the key.\<close>

definition addAttempt ::
  "categoryKey \<Rightarrow> attemptRow \<Rightarrow> (categoryKey \<times> category) list \<Rightarrow> (categoryKey \<times> category) list" where
  "addAttempt key attempt cats =
     map (\<lambda>(k, c). if k = key
                    then (k, c\<lparr>attempts := attempts c @ [attempt],
                               totalTime := totalTime c + studyTime attempt\<rparr>)
                    else (k, c)) cats"

definition categorizedAttempts ::
  "Work list \<Rightarrow> UserAnswers \<Rightarrow> dayStarts \<Rightarrow> (categoryKey \<times> category) list" where
  "categorizedAttempts works answers' d =
     filter (\<lambda>(k, data). length (attempts data) > 0)
       (fold (\<lambda>attempt cats. addAttempt (categoryKeyOf d (timestamp attempt)) attempt cats)
             (allAttempts works answers') categories)"

section \<open>The specification's wording and sample data\<close>

text \<open>
  The verdict on a fill-in-the-blank answer as the specification words it: equal length,
  and at every position the trimmed submission equals the trimmed accepted string.
\<close>

definition specFillBlank :: "jstring list \<Rightarrow> jsval \<Rightarrow> bool" where
  "specFillBlank as ua =
     (case ua of
        JArr uas \<Rightarrow>
          length uas = length as
          \<and> list_all2 (\<lambda>u a. isJStrWith (\<lambda>s. trim s = trim a) u) uas as
      | _ \<Rightarrow> False)"

text \<open>A question of each kind, and one of a kind the application does not know.\<close>

definition sampleQuestion :: "string \<Rightarrow> answer \<Rightarrow> Question" where
  "sampleQuestion kind key = \<lparr>q_type = ascii kind, q_q = [], q_options = None, q_a = key\<rparr>"

definition sampleExcerpt :: "Question list \<Rightarrow> Excerpt" where
  "sampleExcerpt qs = \<lparr>e_id = 1, e_subtitle = [], e_text = [], e_notes = [], e_questions = qs\<rparr>"

definition sampleWork :: "Question list \<Rightarrow> Work" where
  "sampleWork qs =
     \<lparr>w_id = ascii ''kokoro'', w_author = [], w_title = [], w_description = [],
      w_excerpts = [sampleExcerpt qs]\<rparr>"

definition sampleAttempt :: "jsval obj \<Rightarrow> int \<Rightarrow> int \<Rightarrow> AnswerData" where
  "sampleAttempt ans secs ts = \<lparr>answers = ans, studyTime = secs, timestamp = ts\<rparr>"

text \<open>
  A store with three attempts at excerpt 1 of the sample work: one an hour, one 25 hours and
  one ten days before noon of 3 November 2026, Japan time (\<open>1793674800000\<close>).
\<close>

definition sampleStore :: UserAnswers where
  "sampleStore =
     [(ascii ''kokoro'',
       [(numToString 1,
         [sampleAttempt [] 40 1792810800000,
          sampleAttempt [] 50 1793584800000,
          sampleAttempt [] 60 1793671200000])])]"

text \<open>
  The day starts of the Date API at that clock in Asia/Tokyo, and at noon of the same day in
  America/New_York (\<open>1793725200000\<close>), where summer time ended on 1 November 2026: there
  the seven-day start is 169 hours before today's.
\<close>

definition tokyoDayStarts :: dayStarts where
  "tokyoDayStarts =
     \<lparr>todayStart = 1793631600000, yesterdayStart = 1793545200000,
      sevenDaysAgo = 1793026800000, thirtyDaysAgo = 1791039600000\<rparr>"

definition newYorkDayStarts :: dayStarts where
  "newYorkDayStarts =
     \<lparr>todayStart = 1793682000000, yesterdayStart = 1793595600000,
      sevenDaysAgo = 1793073600000, thirtyDaysAgo = 1791086400000\<rparr>"

definition sampleRow :: "int \<Rightarrow> int \<Rightarrow> attemptRow" where
  "sampleRow secs ts =
     \<lparr>answers = [], studyTime = secs, timestamp = ts,
      at_workId = ascii ''kokoro'', at_excerptId = 1,
      at_score = \<lparr>correct = 0, total = 0, results = []\<rparr>\<rparr>"

section \<open>Properties of the grading functions\<close>

lemma every_iff: "every f xs \<longleftrightarrow> (\<forall>i<length xs. f (xs ! i) i)"
  by (auto simp: every_def list_all_iff)

lemma isJStrWith_iff: "isJStrWith P v \<longleftrightarrow> (\<exists>s. v = JStr s \<and> P s)"
  by (cases v) simp_all

lemma getScore_length:
  "length (results (getScore (Some ex) (Some ad))) = length (e_questions ex)"
  by (simp add: getScore_def Let_def)

lemma getScore_nth:
  "i < length (e_questions ex) \<Longrightarrow>
   results (getScore (Some ex) (Some ad)) ! i = scoreQuestion ad (e_questions ex ! i) i"
  by (simp add: getScore_def Let_def)

text \<open>The two copies of the comparison agree wherever an answer is stored.\<close>

lemma scoreQuestion_present:
  "obj_get (answers ad) (numToString i) = Some ua \<Longrightarrow>
   isCorrect (scoreQuestion ad q i) = checkAnswerCorrectness q ua"
  by (simp add: scoreQuestion_def checkAnswerCorrectness_def split: answer.splits jsval.splits)

lemma getScore_present:
  assumes "i < length (e_questions ex)"
    and "obj_get (answers ad) (numToString i) = Some ua"
  shows "isCorrect (results (getScore (Some ex) (Some ad)) ! i)
         = checkAnswerCorrectness (e_questions ex ! i) ua"
  using assms by (simp add: getScore_nth scoreQuestion_present)

lemma all_strings_iff:
  "(\<forall>i<length uas. \<exists>s. uas ! i = JStr s \<and> P s i) \<longleftrightarrow>
   (\<exists>ss. uas = map JStr ss \<and> (\<forall>i<length ss. P (ss ! i) i))"
proof
  assume L: "\<forall>i<length uas. \<exists>s. uas ! i = JStr s \<and> P s i"
  define ss where "ss = map (\<lambda>v. case v of JStr s \<Rightarrow> s | _ \<Rightarrow> []) uas"
  have "uas = map JStr ss"
    using L by (auto simp: ss_def list_eq_iff_nth_eq)
  moreover have "\<forall>i<length ss. P (ss ! i) i"
    using L by (auto simp: ss_def)
  ultimately show "\<exists>ss. uas = map JStr ss \<and> (\<forall>i<length ss. P (ss ! i) i)"
    by blast
next
  assume "\<exists>ss. uas = map JStr ss \<and> (\<forall>i<length ss. P (ss ! i) i)"
  then show "\<forall>i<length uas. \<exists>s. uas ! i = JStr s \<and> P s i"
    by auto
qed

lemma check_fill_blank:
  assumes "q_type q = ascii ''fill-in-the-blank''" and "q_a q = AArr as"
  shows "checkAnswerCorrectness q ua \<longleftrightarrow>
         (\<exists>ss. ua = JArr (map JStr ss) \<and> length ss = length as
               \<and> (\<forall>i<length as. trim (ss ! i) = as ! i))"
proof (cases ua)
  case (JArr uas)
  have "checkAnswerCorrectness q ua \<longleftrightarrow>
        length uas = length as \<and> (\<forall>i<length uas. \<exists>s. uas ! i = JStr s \<and> trim s = as ! i)"
    using assms JArr
    by (simp add: checkAnswerCorrectness_def ascii_def every_iff isJStrWith_iff)
  also have "\<dots> \<longleftrightarrow> length uas = length as
        \<and> (\<exists>ss. uas = map JStr ss \<and> (\<forall>i<length ss. trim (ss ! i) = as ! i))"
    by (simp only: all_strings_iff)
  also have "\<dots> \<longleftrightarrow> (\<exists>ss. ua = JArr (map JStr ss) \<and> length ss = length as
               \<and> (\<forall>i<length as. trim (ss ! i) = as ! i))"
    using JArr by auto
  finally show ?thesis .
qed (use assms in \<open>simp_all add: checkAnswerCorrectness_def ascii_def\<close>)

lemma check_extraction:
  assumes "q_type q = ascii ''extraction''"
  shows "checkAnswerCorrectness q ua \<longleftrightarrow>
         (\<exists>s. ua = JStr s \<and>
              (case q_a q of AStr t \<Rightarrow> trim s = t | AArr alts \<Rightarrow> trim s \<in> trim ` set alts))"
  using assms
  by (auto simp: checkAnswerCorrectness_def ascii_def isJStrWith_iff split: answer.splits)

lemma check_unknown:
  assumes "q_type q \<noteq> ascii ''multiple-choice''" and "q_type q \<noteq> ascii ''extraction''"
    and "q_type q \<noteq> ascii ''fill-in-the-blank''"
  shows "checkAnswerCorrectness q ua = False"
  using assms by (simp add: checkAnswerCorrectness_def)

lemma score_unknown:
  assumes "q_type q \<noteq> ascii ''multiple-choice''" and "q_type q \<noteq> ascii ''extraction''"
    and "q_type q \<noteq> ascii ''fill-in-the-blank''"
  shows "isCorrect (scoreQuestion ad q i) = False"
  using assms by (simp add: scoreQuestion_def split: option.splits)

lemmas sample_defs =
  sampleQuestion_def sampleExcerpt_def sampleWork_def sampleAttempt_def ascii_def

lemmas eval_defs =
  trim_def isWhiteSpace_def every_def obj_get_def numToString.simps

text \<open>
  C1, as the code has it. For a fill-in-the-blank question whose accepted answer is a
  sequence of strings, both graders mark a stored submission correct exactly when it is an
  array of strings of the same length whose entries, trimmed, equal the accepted strings
  as they stand in the answer key. The accepted strings are not trimmed. A submission of
  another length, or one that is not an array of strings, is incorrect.
\<close>

theorem fill_blank_grading:
  assumes "q_type q = ascii ''fill-in-the-blank''" and "q_a q = AArr as"
    and "i < length (e_questions ex)" and "e_questions ex ! i = q"
    and "obj_get (answers ad) (numToString i) = Some ua"
  shows "(checkAnswerCorrectness q ua \<longleftrightarrow>
            (\<exists>ss. ua = JArr (map JStr ss) \<and> length ss = length as
                  \<and> (\<forall>i<length as. trim (ss ! i) = as ! i)))
       \<and> (isCorrect (results (getScore (Some ex) (Some ad)) ! i) \<longleftrightarrow>
            (\<exists>ss. ua = JArr (map JStr ss) \<and> length ss = length as
                  \<and> (\<forall>i<length as. trim (ss ! i) = as ! i)))"
proof -
  have "isCorrect (results (getScore (Some ex) (Some ad)) ! i) = checkAnswerCorrectness q ua"
    using assms(3-5) getScore_present by blast
  then show ?thesis
    using check_fill_blank [OF assms(1,2)] by simp
qed

theorem fill_blank_grading_witness:
  "checkAnswerCorrectness (sampleQuestion ''fill-in-the-blank'' (AArr [ascii ''a'', ascii ''b'']))
     (JArr [JStr (ascii '' a''), JStr (ascii ''b '')])
   \<and> isCorrect (results (getScore
        (Some (sampleExcerpt [sampleQuestion ''fill-in-the-blank'' (AArr [ascii ''a'', ascii ''b''])]))
        (Some (sampleAttempt [(numToString 0, JArr [JStr (ascii '' a''), JStr (ascii ''b '')])] 5 0)))
        ! 0)"
proof -
  let ?q = "sampleQuestion ''fill-in-the-blank'' (AArr [ascii ''a'', ascii ''b''])"
  let ?ua = "JArr [JStr (ascii '' a''), JStr (ascii ''b '')]"
  let ?ex = "sampleExcerpt [?q]"
  let ?ad = "sampleAttempt [(numToString 0, ?ua)] 5 0"
  have h1: "q_type ?q = ascii ''fill-in-the-blank''" by (simp add: sampleQuestion_def)
  have h2: "q_a ?q = AArr [ascii ''a'', ascii ''b'']" by (simp add: sampleQuestion_def)
  have h3: "0 < length (e_questions ?ex)" by (simp add: sampleExcerpt_def)
  have h4: "e_questions ?ex ! 0 = ?q" by (simp add: sampleExcerpt_def)
  have h5: "obj_get (answers ?ad) (numToString 0) = Some ?ua"
    by (simp add: sampleAttempt_def obj_get_def)
  have r: "\<exists>ss. ?ua = JArr (map JStr ss) \<and> length ss = length [ascii ''a'', ascii ''b'']
             \<and> (\<forall>i<length [ascii ''a'', ascii ''b'']. trim (ss ! i) = [ascii ''a'', ascii ''b''] ! i)"
    by (rule exI [of _ "[ascii '' a'', ascii ''b '']"])
       (simp add: ascii_def trim_def isWhiteSpace_def less_Suc_eq)
  show ?thesis
    using fill_blank_grading [OF h1 h2 h3 h4 h5] r by blast
qed

theorem fill_blank_untrimmed_key_counterexample:
  "specFillBlank [[0x20, 0x61]] (JArr [JStr [0x20, 0x61]])
   \<and> \<not> checkAnswerCorrectness (sampleQuestion ''fill-in-the-blank'' (AArr [[0x20, 0x61]]))
          (JArr [JStr [0x20, 0x61]])
   \<and> \<not> isCorrect (results (getScore
          (Some (sampleExcerpt [sampleQuestion ''fill-in-the-blank'' (AArr [[0x20, 0x61]])]))
          (Some (sampleAttempt [(numToString 0, JArr [JStr [0x20, 0x61]])] 5 0))) ! 0)"
  by (simp add: specFillBlank_def checkAnswerCorrectness_def getScore_def scoreQuestion_def
      sample_defs eval_defs)

text \<open>
  C3. For an extraction question both graders mark a stored submission correct exactly when
  it is a string and, if the accepted answer is a single string, its trimmed value equals
  that string exactly; if the accepted answer is a list of alternatives, its trimmed value
  equals one of the trimmed alternatives.
\<close>

theorem extraction_grading:
  assumes "q_type q = ascii ''extraction''"
    and "i < length (e_questions ex)" and "e_questions ex ! i = q"
    and "obj_get (answers ad) (numToString i) = Some ua"
  shows "(checkAnswerCorrectness q ua \<longleftrightarrow>
            (\<exists>s. ua = JStr s \<and>
               (case q_a q of AStr t \<Rightarrow> trim s = t
                            | AArr alts \<Rightarrow> trim s \<in> trim ` set alts)))
       \<and> (isCorrect (results (getScore (Some ex) (Some ad)) ! i) \<longleftrightarrow>
            (\<exists>s. ua = JStr s \<and>
               (case q_a q of AStr t \<Rightarrow> trim s = t
                            | AArr alts \<Rightarrow> trim s \<in> trim ` set alts)))"
proof -
  have "isCorrect (results (getScore (Some ex) (Some ad)) ! i) = checkAnswerCorrectness q ua"
    using assms(2-4) getScore_present by blast
  then show ?thesis
    using check_extraction [OF assms(1)] by simp
qed

theorem extraction_grading_witness:
  "checkAnswerCorrectness (sampleQuestion ''extraction'' (AStr (ascii ''sensei'')))
     (JStr (0x3000 # ascii ''sensei ''))
   \<and> isCorrect (results (getScore
        (Some (sampleExcerpt [sampleQuestion ''extraction'' (AStr (ascii ''sensei'')),
                              sampleQuestion ''extraction'' (AArr [ascii ''A '', ascii ''B''])]))
        (Some (sampleAttempt [(numToString 0, JStr (0x3000 # ascii ''sensei '')),
                              (numToString 1, JStr (ascii '' A''))] 5 0)))
        ! 1)"
proof -
  let ?q0 = "sampleQuestion ''extraction'' (AStr (ascii ''sensei''))"
  let ?q1 = "sampleQuestion ''extraction'' (AArr [ascii ''A '', ascii ''B''])"
  let ?u0 = "JStr (0x3000 # ascii ''sensei '')"
  let ?u1 = "JStr (ascii '' A'')"
  let ?ex = "sampleExcerpt [?q0, ?q1]"
  let ?ad = "sampleAttempt [(numToString 0, ?u0), (numToString 1, ?u1)] 5 0"
  have t0: "q_type ?q0 = ascii ''extraction''" and t1: "q_type ?q1 = ascii ''extraction''"
    by (simp_all add: sampleQuestion_def)
  have l0: "0 < length (e_questions ?ex)" and l1: "1 < length (e_questions ?ex)"
    by (simp_all add: sampleExcerpt_def)
  have n0: "e_questions ?ex ! 0 = ?q0" and n1: "e_questions ?ex ! 1 = ?q1"
    by (simp_all add: sampleExcerpt_def)
  have g0: "obj_get (answers ?ad) (numToString 0) = Some ?u0"
    and g1: "obj_get (answers ?ad) (numToString 1) = Some ?u1"
    by (simp_all add: sampleAttempt_def obj_get_def numToString.simps)
  have r0: "\<exists>s. ?u0 = JStr s \<and>
              (case q_a ?q0 of AStr t \<Rightarrow> trim s = t | AArr alts \<Rightarrow> trim s \<in> trim ` set alts)"
    by (simp add: sampleQuestion_def ascii_def trim_def isWhiteSpace_def)
  have r1: "\<exists>s. ?u1 = JStr s \<and>
              (case q_a ?q1 of AStr t \<Rightarrow> trim s = t | AArr alts \<Rightarrow> trim s \<in> trim ` set alts)"
    by (simp add: sampleQuestion_def ascii_def trim_def isWhiteSpace_def)
  show ?thesis
    using extraction_grading [OF t0 l0 n0 g0] extraction_grading [OF t1 l1 n1 g1] r0 r1
    by blast
qed

text \<open>
  C5. When the attempt's answers hold no entry for a question's index, the scorer's verdict
  for that question, whatever its kind, is incorrect, reports the empty string as the
  submitted answer and reports the question's accepted answer.
\<close>

theorem missing_answer_incorrect:
  assumes "i < length (e_questions ex)"
    and "obj_get (answers ad) (numToString i) = None"
  shows "results (getScore (Some ex) (Some ad)) ! i
         = \<lparr>isCorrect = False, userAnswer = JStr [], correctAnswer = q_a (e_questions ex ! i)\<rparr>"
  using assms by (simp add: getScore_nth scoreQuestion_def)

theorem missing_answer_incorrect_witness:
  "results (getScore
     (Some (sampleExcerpt [sampleQuestion ''multiple-choice'' (AStr (ascii ''x'')),
                           sampleQuestion ''fill-in-the-blank'' (AArr [ascii ''a''])]))
     (Some (sampleAttempt [(numToString 0, JStr (ascii ''x''))] 5 0))) ! 1
   = \<lparr>isCorrect = False, userAnswer = JStr [], correctAnswer = AArr [ascii ''a'']\<rparr>"
proof -
  let ?ex = "sampleExcerpt [sampleQuestion ''multiple-choice'' (AStr (ascii ''x'')),
                            sampleQuestion ''fill-in-the-blank'' (AArr [ascii ''a''])]"
  let ?ad = "sampleAttempt [(numToString 0, JStr (ascii ''x''))] 5 0"
  have h1: "1 < length (e_questions ?ex)" by (simp add: sampleExcerpt_def)
  have h2: "obj_get (answers ?ad) (numToString 1) = None"
    by (simp add: sampleAttempt_def obj_get_def numToString.simps)
  show ?thesis
    using missing_answer_incorrect [OF h1 h2] by (simp add: sampleExcerpt_def sampleQuestion_def)
qed

text \<open>
  C6. For a question whose kind is none of multiple-choice, extraction and
  fill-in-the-blank, the checker returns false for every submitted answer, and the scorer
  still returns one verdict per question, the verdict of that question being incorrect,
  whether an answer is stored or not. Neither function has a failing branch.
\<close>

theorem unknown_kind_incorrect:
  assumes "q_type q \<notin> {ascii ''multiple-choice'', ascii ''extraction'', ascii ''fill-in-the-blank''}"
    and "i < length (e_questions ex)" and "e_questions ex ! i = q"
  shows "checkAnswerCorrectness q ua = False
       \<and> isCorrect (results (getScore (Some ex) (Some ad)) ! i) = False
       \<and> length (results (getScore (Some ex) (Some ad))) = length (e_questions ex)
       \<and> total (getScore (Some ex) (Some ad)) = length (e_questions ex)"
proof -
  from assms(1) have k: "q_type q \<noteq> ascii ''multiple-choice''" "q_type q \<noteq> ascii ''extraction''"
    "q_type q \<noteq> ascii ''fill-in-the-blank''"
    by simp_all
  have "isCorrect (results (getScore (Some ex) (Some ad)) ! i) = False"
    using assms(2,3) score_unknown [OF k] by (simp add: getScore_nth)
  moreover have "total (getScore (Some ex) (Some ad)) = length (e_questions ex)"
    by (simp add: getScore_def Let_def)
  ultimately show ?thesis
    using check_unknown [OF k] getScore_length by simp
qed

theorem unknown_kind_incorrect_witness:
  "checkAnswerCorrectness (sampleQuestion ''essay'' (AStr (ascii ''x''))) (JStr (ascii ''x'')) = False
   \<and> isCorrect (results (getScore
        (Some (sampleExcerpt [sampleQuestion ''essay'' (AStr (ascii ''x''))]))
        (Some (sampleAttempt [(numToString 0, JStr (ascii ''x''))] 5 0))) ! 0) = False"
proof -
  let ?q = "sampleQuestion ''essay'' (AStr (ascii ''x''))"
  let ?ex = "sampleExcerpt [?q]"
  have h1: "q_type ?q \<notin> {ascii ''multiple-choice'', ascii ''extraction'', ascii ''fill-in-the-blank''}"
    by (simp add: sampleQuestion_def ascii_def)
  have h2: "0 < length (e_questions ?ex)" by (simp add: sampleExcerpt_def)
  have h3: "e_questions ?ex ! 0 = ?q" by (simp add: sampleExcerpt_def)
  show ?thesis
    using unknown_kind_incorrect [OF h1 h2 h3] by blast
qed

section \<open>Properties of the record store\<close>

lemma map_of_obj_insert:
  "k \<notin> fst ` set ob \<Longrightarrow> map_of (obj_insert ob k v) = (map_of ob)(k \<mapsto> v)"
  by (induction ob) (auto simp: fun_eq_iff)

lemma map_of_replace:
  "map_of (map (\<lambda>(k', v'). if k' = k then (k', v) else (k', v')) ob) x =
   (if x = k then map_option (\<lambda>_. v) (map_of ob k) else map_of ob x)"
  by (induction ob) auto

text \<open>Reading a property after writing one, wherever the written key is placed.\<close>

lemma obj_get_set: "obj_get (obj_set ob k v) k' = (if k' = k then Some v else obj_get ob k')"
proof (cases "k \<in> fst ` set ob")
  case True
  then obtain v0 where "map_of ob k = Some v0"
    by (metis map_of_eq_None_iff not_Some_eq)
  with True show ?thesis
    by (simp add: obj_get_def obj_set_def map_of_replace)
next
  case False
  then show ?thesis
    by (simp add: obj_get_def obj_set_def map_of_obj_insert)
qed

lemma obj_get_Nil: "obj_get [] k = None"
  by (simp add: obj_get_def)

lemma answerAttempts_saveAnswers:
  "answerAttempts (saveAnswers prev w e ua st now) w e =
   answerAttempts prev w e @ [\<lparr>answers = ua, studyTime = st, timestamp = now\<rparr>]"
  by (simp add: answerAttempts_def saveAnswers_def Let_def obj_get_set obj_get_Nil
      split: option.splits)

lemma getAttemptCount_length: "getAttemptCount s w e = length (answerAttempts s w e)"
  by (simp add: getAttemptCount_def answerAttempts_def split: option.splits)

lemma answerAttempts_fold:
  "answerAttempts (fold (\<lambda>(ua, st, now) s. saveAnswers s w e ua st now) xs s) w e =
   answerAttempts s w e
     @ map (\<lambda>(ua, st, now). \<lparr>answers = ua, studyTime = st, timestamp = now\<rparr>) xs"
  by (induction xs arbitrary: s) (auto simp: answerAttempts_saveAnswers)

text \<open>
  C4. Starting from a store with no attempts for a work and excerpt, saving the attempts
  \<open>xs\<close> one after the other for that pair makes the attempt count the number of attempts
  saved, and the stored list is those attempts in the order they were saved. Each single
  save, on any store, leaves the earlier attempts of the pair as they were and puts the
  new attempt at the end.
\<close>

theorem append_attempts:
  assumes "answerAttempts s w e = []"
  shows "getAttemptCount (fold (\<lambda>(ua, st, now) s. saveAnswers s w e ua st now) xs s) w e
           = length xs
       \<and> answerAttempts (fold (\<lambda>(ua, st, now) s. saveAnswers s w e ua st now) xs s) w e
           = map (\<lambda>(ua, st, now). \<lparr>answers = ua, studyTime = st, timestamp = now\<rparr>) xs
       \<and> answerAttempts (saveAnswers s' w e ua' st' now') w e
           = answerAttempts s' w e @ [\<lparr>answers = ua', studyTime = st', timestamp = now'\<rparr>]
       \<and> getAttemptCount (saveAnswers s' w e ua' st' now') w e = getAttemptCount s' w e + 1"
  using assms
  by (simp add: getAttemptCount_length answerAttempts_fold answerAttempts_saveAnswers)

theorem append_attempts_witness:
  "getAttemptCount
     (fold (\<lambda>(ua, st, now) s. saveAnswers s (ascii ''kokoro'') 2 ua st now)
        [([], 30, 1000), ([(numToString 0, JStr (ascii ''x''))], 45, 2000), ([], 1, 3000)]
        [(ascii ''kokoro'', [(numToString 1, [sampleAttempt [] 7 500])])])
     (ascii ''kokoro'') 2 = 3"
proof -
  have h: "answerAttempts [(ascii ''kokoro'', [(numToString 1, [sampleAttempt [] 7 500])])]
             (ascii ''kokoro'') 2 = []"
    by (simp add: answerAttempts_def obj_get_def numToString.simps)
  show ?thesis
    using append_attempts [OF h,
        of "[([], 30, 1000), ([(numToString 0, JStr (ascii ''x''))], 45, 2000), ([], 1, 3000)]",
        THEN conjunct1]
    by simp
qed

text \<open>
  C8. When the saved blob is absent, is the empty string, cannot be read or does not parse,
  the store starts empty: it has no entries, and every attempt count is 0.
\<close>

theorem unparseable_blob_empty_store:
  assumes "jsonParse s = None"
  shows "initialAnswers (ReadValue s) jsonParse = []
       \<and> initialAnswers ReadNull jsonParse = []
       \<and> initialAnswers ReadThrows jsonParse = []
       \<and> getAttemptCount (initialAnswers (ReadValue s) jsonParse) w e = 0
       \<and> getAttemptCount (initialAnswers ReadNull jsonParse) w e = 0"
  using assms by (simp add: initialAnswers_def getAttemptCount_def obj_get_Nil)

theorem unparseable_blob_empty_store_witness:
  "initialAnswers (ReadValue (ascii ''{oops''))
     (\<lambda>s. if s = ascii ''{}'' then Some [] else None) = []"
proof -
  have h: "(if ascii ''{oops'' = ascii ''{}'' then Some ([] :: UserAnswers) else None) = None"
    by (simp add: ascii_def)
  show ?thesis
    using unparseable_blob_empty_store
      [of "\<lambda>s. if s = ascii ''{}'' then Some [] else None" "ascii ''{oops''"] h
    by blast
qed

text \<open>
  C9. After clearing, the store is the empty object whatever it held, and the attempt count
  of every work and excerpt is 0.
\<close>

theorem clear_all_counts_zero:
  "clearAllAnswers s = [] \<and> getAttemptCount (clearAllAnswers s) w e = 0"
  by (simp add: clearAllAnswers_def getAttemptCount_def obj_get_Nil)

text \<open>
  C10. Finishing a quiz session appends exactly one attempt to the work and excerpt of the
  session; its study time is the rounded number of elapsed seconds when that is positive
  and 1 otherwise, hence at least 1.
\<close>

theorem finish_quiz_study_time:
  "answerAttempts (handleFinishQuiz prev work excerpt sqs uas startTime now savedAt)
       (w_id work) (e_id excerpt)
     = answerAttempts prev (w_id work) (e_id excerpt)
       @ [\<lparr>answers = orderedAnswers sqs uas,
           studyTime = max 1 (roundSeconds (now - startTime)),
           timestamp = savedAt\<rparr>]
   \<and> studyTime (last (answerAttempts
         (handleFinishQuiz prev work excerpt sqs uas startTime now savedAt)
         (w_id work) (e_id excerpt))) \<ge> 1"
  by (simp add: handleFinishQuiz_def Let_def answerAttempts_saveAnswers max_def)

section \<open>Properties of the history report\<close>

text \<open>The attempts that fall under one key, in the order of the sorted list.\<close>

lemma fold_addAttempt:
  "fold (\<lambda>attempt cats. addAttempt (key attempt) attempt cats) xs cats =
   map (\<lambda>(k, c). (k, c\<lparr>attempts := attempts c @ filter (\<lambda>a. key a = k) xs,
                          totalTime := totalTime c
                             + sum_list (map studyTime (filter (\<lambda>a. key a = k) xs))\<rparr>)) cats"
proof (induction xs arbitrary: cats)
  case Nil
  show ?case by (simp add: case_prod_beta)
next
  case (Cons x xs)
  let ?F = "\<lambda>attempt cats. addAttempt (key attempt) attempt cats"
  have "fold ?F (x # xs) cats = fold ?F xs (addAttempt (key x) x cats)"
    by simp
  also have "\<dots> = map (\<lambda>(k, c). (k, c\<lparr>attempts := attempts c @ filter (\<lambda>a. key a = k) xs,
                          totalTime := totalTime c
                             + sum_list (map studyTime (filter (\<lambda>a. key a = k) xs))\<rparr>))
                      (addAttempt (key x) x cats)"
    by (rule Cons.IH)
  also have "\<dots> = map (\<lambda>(k, c). (k, c\<lparr>attempts := attempts c @ filter (\<lambda>a. key a = k) (x # xs),
                          totalTime := totalTime c
                             + sum_list (map studyTime (filter (\<lambda>a. key a = k) (x # xs)))\<rparr>))
                      cats"
    by (auto simp: addAttempt_def case_prod_beta)
  finally show ?case .
qed

lemma allAttempts_sorted:
  "sorted_wrt (\<lambda>a b. timestamp a \<ge> timestamp b) (allAttempts works ans)"
proof -
  have "sorted (map (\<lambda>a. - timestamp a) (allAttempts works ans))"
    unfolding allAttempts_def by (rule sorted_sort_key)
  then show ?thesis
    by (simp add: sorted_map)
qed

text \<open>What a listed category holds, for any four day starts.\<close>

lemma categorize_member:
  assumes "(k, c) \<in> set (categorizedAttempts works ans d)"
  shows "attempts c = filter (\<lambda>a. categoryKeyOf d (timestamp a) = k) (allAttempts works ans)"
    and "totalTime c = sum_list (map studyTime (attempts c))"
    and "attempts c \<noteq> []"
    and "k \<noteq> thirtyDays"
proof -
  let ?xs = "allAttempts works ans"
  let ?b = "\<lambda>k. filter (\<lambda>a. categoryKeyOf d (timestamp a) = k) ?xs"
  from assms have ne: "attempts c \<noteq> []"
    by (auto simp: categorizedAttempts_def)
  from assms have "(k, c) \<in> set (map (\<lambda>(k, c). (k, c\<lparr>attempts := attempts c @ ?b k,
        totalTime := totalTime c + sum_list (map studyTime (?b k))\<rparr>)) categories)"
    by (simp add: categorizedAttempts_def fold_addAttempt)
  then have a: "attempts c = ?b k"
    and t: "totalTime c = sum_list (map studyTime (?b k))"
    by (auto simp: categories_def)
  show "attempts c = ?b k" by (rule a)
  show "totalTime c = sum_list (map studyTime (attempts c))" using a t by simp
  show "attempts c \<noteq> []" by (rule ne)
  have "?b thirtyDays = []"
    by (auto simp: categoryKeyOf_def filter_empty_conv)
  with a ne show "k \<noteq> thirtyDays" by auto
qed

text \<open>Every scored attempt is listed, under the key of its timestamp.\<close>

lemma categorize_listed:
  assumes "a \<in> set (allAttempts works ans)"
  shows "\<exists>c. (categoryKeyOf d (timestamp a), c) \<in> set (categorizedAttempts works ans d)
             \<and> a \<in> set (attempts c)"
proof -
  let ?xs = "allAttempts works ans"
  let ?k = "categoryKeyOf d (timestamp a)"
  define b where "b = (\<lambda>k. filter (\<lambda>a. categoryKeyOf d (timestamp a) = k) ?xs)"
  define f :: "categoryKey \<times> category \<Rightarrow> categoryKey \<times> category"
    where "f = (\<lambda>(k, c). (k, c\<lparr>attempts := attempts c @ b k,
        totalTime := totalTime c + sum_list (map studyTime (b k))\<rparr>))"
  obtain c0 where c0: "(?k, c0) \<in> set categories" "attempts c0 = []"
    by (cases ?k) (auto simp: categories_def)
  define c where "c = snd (f (?k, c0))"
  have eq: "(?k, c) = f (?k, c0)"
    by (simp add: c_def f_def)
  from assms have in_c: "a \<in> set (attempts c)"
    by (simp add: c_def f_def b_def)
  have "f (?k, c0) \<in> f ` set categories"
    using c0(1) by (rule imageI)
  then have m: "(?k, c) \<in> set (map f categories)"
    by (simp only: eq set_map)
  have len: "length (attempts c) > 0"
    using in_c by (cases "attempts c") simp_all
  have "(?k, c) \<in> set (filter (\<lambda>(k, data). length (attempts data) > 0) (map f categories))"
    using m len by (simp only: set_filter mem_Collect_eq split_conv simp_thms)
  moreover have "categorizedAttempts works ans d
      = filter (\<lambda>(k, data). length (attempts data) > 0) (map f categories)"
    by (simp only: categorizedAttempts_def fold_addAttempt f_def b_def)
  ultimately have "(?k, c) \<in> set (categorizedAttempts works ans d)"
    by simp
  with in_c show ?thesis by blast
qed

text \<open>
  The key of an attempt from before the seven-day start, whenever the day starts are in
  their order.
\<close>

lemma older_key:
  "sevenDaysAgo d \<le> yesterdayStart d \<Longrightarrow> yesterdayStart d \<le> todayStart d \<Longrightarrow>
   ts < sevenDaysAgo d \<Longrightarrow> categoryKeyOf d ts = older"
  by (simp add: categoryKeyOf_def)

lemma sample_allAttempts:
  "allAttempts [sampleWork []] sampleStore =
     [sampleRow 60 1793671200000, sampleRow 50 1793584800000, sampleRow 40 1792810800000]"
  by (simp add: allAttempts_def sampleStore_def sampleRow_def sample_defs getScore_def
      numToString.simps)

text \<open>
  An attempt in the hour that a 24-hour day count would cut off: in New York it is still
  within the last seven days.
\<close>

lemma newYork_summer_time_hour:
  "categoryKeyOf newYorkDayStarts 1793075400000 = sevenDays"
  by (simp add: categoryKeyOf_def newYorkDayStarts_def)

text \<open>
  C2. The report never lists the thirty-day category, for any works, store and day starts
  (hence for every clock and time zone). Whenever the day starts are in their order, the
  seven-day start no later than yesterday's and yesterday's no later than today's, a
  scored attempt whose timestamp is before the start of the day seven days before today
  is listed in the category \<open>older\<close> and in no other.
\<close>

theorem older_than_seven_days:
  "thirtyDays \<notin> fst ` set (categorizedAttempts works ans d)
   \<and> (sevenDaysAgo d \<le> yesterdayStart d \<and> yesterdayStart d \<le> todayStart d
      \<and> a \<in> set (allAttempts works ans) \<and> timestamp a < sevenDaysAgo d
        \<longrightarrow> (\<exists>c. (older, c) \<in> set (categorizedAttempts works ans d)
                   \<and> a \<in> set (attempts c))
            \<and> (\<forall>k c. (k, c) \<in> set (categorizedAttempts works ans d)
                       \<and> a \<in> set (attempts c) \<longrightarrow> k = older))"
proof (intro conjI impI allI)
  show "thirtyDays \<notin> fst ` set (categorizedAttempts works ans d)"
    using categorize_member(4) by fastforce
next
  assume h: "sevenDaysAgo d \<le> yesterdayStart d \<and> yesterdayStart d \<le> todayStart d
      \<and> a \<in> set (allAttempts works ans) \<and> timestamp a < sevenDaysAgo d"
  then have key: "categoryKeyOf d (timestamp a) = older"
    using older_key by blast
  show "\<exists>c. (older, c) \<in> set (categorizedAttempts works ans d) \<and> a \<in> set (attempts c)"
    using categorize_listed [of a works ans d] h key by simp
  fix k c
  assume m: "(k, c) \<in> set (categorizedAttempts works ans d) \<and> a \<in> set (attempts c)"
  then have "attempts c = filter (\<lambda>a. categoryKeyOf d (timestamp a) = k)
                            (allAttempts works ans)"
    using categorize_member(1) by blast
  with m key show "k = older" by auto
qed

theorem older_than_seven_days_witness:
  "\<exists>c. (older, c) \<in> set (categorizedAttempts [sampleWork []] sampleStore newYorkDayStarts)
       \<and> sampleRow 40 1792810800000 \<in> set (attempts c)"
proof -
  have h0: "sevenDaysAgo newYorkDayStarts \<le> yesterdayStart newYorkDayStarts
            \<and> yesterdayStart newYorkDayStarts \<le> todayStart newYorkDayStarts"
    by (simp add: newYorkDayStarts_def)
  have h1: "sampleRow 40 1792810800000 \<in> set (allAttempts [sampleWork []] sampleStore)"
    by (simp add: sample_allAttempts)
  have h2: "timestamp (sampleRow 40 1792810800000) < sevenDaysAgo newYorkDayStarts"
    by (simp add: newYorkDayStarts_def sampleRow_def)
  show ?thesis
    using older_than_seven_days [of "[sampleWork []]" sampleStore newYorkDayStarts
        "sampleRow 40 1792810800000"] h0 h1 h2
    by blast
qed

text \<open>
  C7. In the report, for any day starts, the total time of every listed category is the sum
  of the study times of its attempts, no listed category is without attempts, and the
  attempts of a listed category are in descending order of timestamp.
\<close>

theorem listed_category_totals:
  assumes "(k, c) \<in> set (categorizedAttempts works ans d)"
  shows "totalTime c = sum_list (map studyTime (attempts c))
       \<and> attempts c \<noteq> []
       \<and> sorted_wrt (\<lambda>a b. timestamp a \<ge> timestamp b) (attempts c)"
proof -
  have "sorted_wrt (\<lambda>a b. timestamp a \<ge> timestamp b) (attempts c)"
    using categorize_member(1) [OF assms] allAttempts_sorted sorted_wrt_filter by fastforce
  then show ?thesis
    using categorize_member(2,3) [OF assms] by simp
qed

theorem listed_category_totals_witness:
  "totalTime \<lparr>title = [0x4ECA, 0x65E5, 0x306E, 0x8A18, 0x9332],
              attempts = [sampleRow 60 1793671200000], totalTime = 60\<rparr>
     = sum_list (map studyTime [sampleRow 60 1793671200000])
   \<and> categorizedAttempts [sampleWork []] sampleStore tokyoDayStarts
     = [(today, \<lparr>title = [0x4ECA, 0x65E5, 0x306E, 0x8A18, 0x9332],
                 attempts = [sampleRow 60 1793671200000], totalTime = 60\<rparr>),
        (yesterday, \<lparr>title = [0x6628, 0x65E5, 0x306E, 0x8A18, 0x9332],
                     attempts = [sampleRow 50 1793584800000], totalTime = 50\<rparr>),
        (older, \<lparr>title = [0x305D, 0x308C, 0x3088, 0x308A, 0x524D, 0x306E, 0x8A18, 0x9332],
                 attempts = [sampleRow 40 1792810800000], totalTime = 40\<rparr>)]"
proof -
  let ?c = "\<lparr>title = [0x4ECA, 0x65E5, 0x306E, 0x8A18, 0x9332],
             attempts = [sampleRow 60 1793671200000], totalTime = 60\<rparr>"
  have ev: "categorizedAttempts [sampleWork []] sampleStore tokyoDayStarts
     = [(today, ?c),
        (yesterday, \<lparr>title = [0x6628, 0x65E5, 0x306E, 0x8A18, 0x9332],
                     attempts = [sampleRow 50 1793584800000], totalTime = 50\<rparr>),
        (older, \<lparr>title = [0x305D, 0x308C, 0x3088, 0x308A, 0x524D, 0x306E, 0x8A18, 0x9332],
                 attempts = [sampleRow 40 1792810800000], totalTime = 40\<rparr>)]"
    by (simp add: categorizedAttempts_def sample_allAttempts tokyoDayStarts_def
        categories_def addAttempt_def categoryKeyOf_def sampleRow_def)
  then have h: "(today, ?c) \<in> set (categorizedAttempts [sampleWork []] sampleStore tokyoDayStarts)"
    by simp
  show ?thesis
    using listed_category_totals [OF h] ev by simp
qed

end
